theory Spec2Isabelle
  imports Main
begin

section \<open>The syntax tree read and built by \<^verbatim>\<open>contractMocker.ts\<close>\<close>

text \<open>
  Only the node shapes that \<^verbatim>\<open>mockContract\<close> reads or builds are modelled. A node's
  \<^verbatim>\<open>type\<close> tag is the constructor of the datatype it belongs to; statements and
  expressions stay opaque (strings). The value \<^verbatim>\<open>null\<close> of an optional field is
  \<open>None\<close>.
\<close>

datatype block = Block "string list"

record parameter =
  typeName :: string
  paramName :: string

record function_definition =
  fd_name :: "string option"
  isConstructor :: bool
  parameters :: "parameter list"
  returnParameters :: "parameter list"
  visibility :: string
  stateMutability :: "string option"
  body :: "block option"

datatype member_kind =
  StateVariableDeclaration | EventDefinition | ModifierDefinition
  | StructDefinition | EnumDefinition | UsingForDeclaration

datatype contract_member =
  FunctionDefinition function_definition
  | OtherMember member_kind string

datatype type_name = UserDefinedTypeName string | ElementaryTypeName string

record inheritance_specifier =
  baseName :: type_name

datatype contract_kind = Contract | Interface | Library

record contract_definition =
  kind :: contract_kind
  cd_name :: string
  baseContracts :: "inheritance_specifier list"
  subNodes :: "contract_member list"

datatype source_node =
  PragmaDirective string string
  | ImportDirective string "(string \<times> string) list option"
  | ContractDefinition contract_definition

record source_unit =
  children :: "source_node list"

section \<open>Objects used as dictionaries\<close>

text \<open>
  The catalog, the \<^verbatim>\<open>contracts\<close> and \<^verbatim>\<open>scope\<close> of a file and the two mappings of the
  options are ordinary JavaScript objects. Such an object is a map of its own entries,
  and it inherits the properties of \<^verbatim>\<open>Object.prototype\<close>. Both \<^verbatim>\<open>key in obj\<close> and
  \<^verbatim>\<open>obj[key]\<close> look at the own entries first and at the inherited properties next:
  \<^verbatim>\<open>'toString' in {}\<close> is true and \<^verbatim>\<open>({})['toString']\<close> is a built-in function. What a
  lookup finds is an own value or the inherited property of that name; \<open>None\<close> is
  \<^verbatim>\<open>undefined\<close>. \<^verbatim>\<open>key in obj\<close> is true exactly when the lookup finds something.
\<close>

definition objectPrototype :: "string list" where
  "objectPrototype =
     [''constructor'', ''__defineGetter__'', ''__defineSetter__'', ''hasOwnProperty'',
      ''__lookupGetter__'', ''__lookupSetter__'', ''isPrototypeOf'',
      ''propertyIsEnumerable'', ''toString'', ''valueOf'', ''__proto__'',
      ''toLocaleString'']"

datatype 'v property = Own 'v | Inherited string

definition getProperty :: "(string \<rightharpoonup> 'v) \<Rightarrow> string \<Rightarrow> 'v property option" where
  "getProperty obj key =
     (case obj key of
        Some v \<Rightarrow> Some (Own v)
      | None \<Rightarrow> if key \<in> set objectPrototype then Some (Inherited key) else None)"

definition hasProperty :: "(string \<rightharpoonup> 'v) \<Rightarrow> string \<Rightarrow> bool" where
  "hasProperty obj key = (case getProperty obj key of None \<Rightarrow> False | Some v \<Rightarrow> True)"

section \<open>The source catalog and the options\<close>

text \<open>
  The callback of \<^verbatim>\<open>mockContract\<close> hands \<^verbatim>\<open>sourceInfo.scope[name]\<close> to the flattener as
  a contract, so the scope maps a name to a contract definition.
\<close>

record source_info =
  parsed :: source_unit
  contracts :: "string \<rightharpoonup> contract_definition"
  scope :: "string \<rightharpoonup> contract_definition"

type_synonym SourceCollection = "string \<rightharpoonup> source_info"

record ('lit, 'script) ContractMockOptions =
  opt_constructors :: "string \<rightharpoonup> 'lit list"
  opt_scripted :: "string \<rightharpoonup> 'script list"

section \<open>Errors\<close>

text \<open>
  Every \<^verbatim>\<open>throw\<close> is a value. The source throws plain \<^verbatim>\<open>Error\<close> objects that differ
  in their message; each message is a constructor carrying what the message interpolates:
  \<^item> \<open>TypeError\<close>: reading \<^verbatim>\<open>.contracts\<close> of \<^verbatim>\<open>undefined\<close> (line 32);
  \<^item> \<open>ContractNotFoundError contractName path\<close>: "Could not find contract ... in ..." (line 33);
  \<^item> \<open>ScopeResolutionError name path\<close>: "Contract ... not in scope of ..." (line 38);
  \<^item> \<open>MissingConstructorArgsError name contractName\<close>: "No arguments for constructor ... in ..."
    (line 59);
  \<^item> \<open>HelperError msg\<close>: whatever one of the imported helpers throws.
\<close>

datatype error =
  TypeError
  | ContractNotFoundError string string
  | ScopeResolutionError string string
  | MissingConstructorArgsError string string
  | HelperError string

section \<open>The imported helpers\<close>

text \<open>
  \<^verbatim>\<open>flattenContract\<close>, \<^verbatim>\<open>makeConstructor\<close>, \<^verbatim>\<open>nonAbstractForcer\<close>, \<^verbatim>\<open>exposeNode\<close>,
  \<^verbatim>\<open>stubFunction\<close>, \<^verbatim>\<open>scriptFunction\<close> and \<^verbatim>\<open>utils.userType\<close> are imported from
  modules that are not part of the sources at hand. They are parameters of the model: any
  function of the right shape, which may throw (\<open>Inl\<close> its message). The contract handed
  to \<^verbatim>\<open>flattenContract\<close>, the answers of the callback and the second argument of
  \<^verbatim>\<open>scriptFunction\<close> are read out of dictionaries, so each is what a lookup finds.

  The flattener receives a callback that may throw. What it does with the callback is
  a \<open>flattening\<close>: it returns its pair \<^verbatim>\<open>[flat, parents]\<close>, or throws an error of its
  own, or calls \<^verbatim>\<open>resolve(name)\<close> and goes on with the contract that comes back. An
  exception thrown by the callback leaves the flattener (it is taken not to catch it).
\<close>

datatype flattening =
  Flattened contract_definition "contract_definition list"
  | Resolve string "contract_definition property \<Rightarrow> flattening"
  | FlattenError string

record ('lit, 'script) helpers =
  flattenContract :: "contract_definition property \<Rightarrow> flattening"
  makeConstructor :: "(string \<rightharpoonup> 'lit list) \<Rightarrow> string + contract_member"
  nonAbstractForcer :: "string \<Rightarrow> string + source_node"
  exposeNode :: "contract_member \<Rightarrow> string + contract_member list"
  stubFunction :: "function_definition \<Rightarrow> string + contract_member list"
  scriptFunction ::
    "function_definition \<Rightarrow> 'script list property option \<Rightarrow> string + contract_member"
  userType :: "string \<Rightarrow> type_name"

text \<open>Running a flattening against a callback: the first exception ends the run.\<close>

primrec runFlatten ::
  "(string \<Rightarrow> error + contract_definition property) \<Rightarrow> flattening
   \<Rightarrow> error + (contract_definition \<times> contract_definition list)" where
  "runFlatten cb (Flattened flat parents) = Inr (flat, parents)"
| "runFlatten cb (Resolve name k) =
     (case cb name of Inl e \<Rightarrow> Inl e | Inr c \<Rightarrow> runFlatten cb (k c))"
| "runFlatten cb (FlattenError msg) = Inl (HelperError msg)"

text \<open>The names the callback is called with during the run, in order.\<close>

primrec asked ::
  "(string \<Rightarrow> error + contract_definition property) \<Rightarrow> flattening \<Rightarrow> string list" where
  "asked cb (Flattened flat parents) = []"
| "asked cb (Resolve name k) =
     name # (case cb name of Inl e \<Rightarrow> [] | Inr c \<Rightarrow> asked cb (k c))"
| "asked cb (FlattenError msg) = []"

text \<open>
  Modelled from the spec: \<^verbatim>\<open>utils.flatMap\<close> (module \<^verbatim>\<open>utils\<close> is missing). The exposer
  and the stubber produce "a sequence (a single input member may expand to zero or more
  output declarations)" and the results are laid out "in original order": the function is
  applied to each element from left to right and the sequences are concatenated. The
  first exception ends the traversal.
\<close>

fun flatMap :: "'a list \<Rightarrow> ('a \<Rightarrow> string + 'b list) \<Rightarrow> string + 'b list" where
  "flatMap [] f = Inr []"
| "flatMap (x # xs) f =
     (case f x of
        Inl msg \<Rightarrow> Inl msg
      | Inr ys \<Rightarrow> (case flatMap xs f of Inl msg \<Rightarrow> Inl msg | Inr zs \<Rightarrow> Inr (ys @ zs)))"

text \<open>
  Modelled from the spec: \<^verbatim>\<open>utils.objectFilter\<close> (module \<^verbatim>\<open>utils\<close> is missing). The
  arguments of the options are "filtered to only the ancestors actually requiring
  arguments": the result keeps the own entries whose key and value pass the test.
\<close>

definition objectFilter :: "('k \<rightharpoonup> 'v) \<Rightarrow> ('k \<Rightarrow> 'v \<Rightarrow> bool) \<Rightarrow> ('k \<rightharpoonup> 'v)" where
  "objectFilter obj f =
     (\<lambda>key. case obj key of None \<Rightarrow> None | Some v \<Rightarrow> if f key v then Some v else None)"

text \<open>\<^verbatim>\<open>Array.prototype.map\<close> with a function that may throw.\<close>

fun mapE :: "('a \<Rightarrow> string + 'b) \<Rightarrow> 'a list \<Rightarrow> string + 'b list" where
  "mapE f [] = Inr []"
| "mapE f (x # xs) =
     (case f x of
        Inl msg \<Rightarrow> Inl msg
      | Inr y \<Rightarrow> (case mapE f xs of Inl msg \<Rightarrow> Inl msg | Inr ys \<Rightarrow> Inr (y # ys)))"

section \<open>\<^verbatim>\<open>mockContract\<close>\<close>

definition mockContractName :: "string \<Rightarrow> string" where
  "mockContractName contractName = contractName @ ''Mock''"

text \<open>
  The callback of lines 35 to 41 (its \<^verbatim>\<open>console.log\<close> is output only and is left out).
  Here and at lines 32 to 35 the test \<^verbatim>\<open>key in obj\<close> is followed by \<^verbatim>\<open>obj[key]\<close>: the
  test fails exactly when the lookup finds nothing, so both are one case distinction on
  the lookup.
\<close>

definition resolve ::
  "source_info \<Rightarrow> string \<Rightarrow> string \<Rightarrow> error + contract_definition property" where
  "resolve sourceInfo path name =
     (case getProperty (scope sourceInfo) name of
        None \<Rightarrow> Inl (ScopeResolutionError name path)
      | Some c \<Rightarrow> Inr c)"

text \<open>Lines 45 to 54: the parents with a constructor that has at least one parameter.\<close>

fun needsArguments :: "contract_member \<Rightarrow> bool" where
  "needsArguments (FunctionDefinition f) = (isConstructor f \<and> length (parameters f) > 0)"
| "needsArguments (OtherMember k s) = False"

definition constructors :: "contract_definition list \<Rightarrow> string list" where
  "constructors parents =
     map cd_name (filter (\<lambda>p. list_ex needsArguments (subNodes p)) parents)"

text \<open>Lines 57 to 61: \<^verbatim>\<open>forEach\<close> throws at the first name without arguments.\<close>

fun checkConstructors :: "(string \<rightharpoonup> 'lit list) \<Rightarrow> string \<Rightarrow> string list \<Rightarrow> error option" where
  "checkConstructors cs contractName [] = None"
| "checkConstructors cs contractName (name # names) =
     (if \<not> hasProperty cs name then Some (MissingConstructorArgsError name contractName)
      else checkConstructors cs contractName names)"

text \<open>Lines 65 to 67: the function definitions without a body.\<close>

fun abstractOf :: "contract_member \<Rightarrow> function_definition option" where
  "abstractOf (FunctionDefinition f) = (if body f = None then Some f else None)"
| "abstractOf (OtherMember k s) = None"

definition abstracts :: "contract_definition \<Rightarrow> function_definition list" where
  "abstracts flat = List.map_filter abstractOf (subNodes flat)"

text \<open>
  Lines 70 and 71. \<^verbatim>\<open>name && ...\<close> is false for a name that is \<^verbatim>\<open>null\<close> or the empty
  string, in both filters.
\<close>

definition scripted ::
  "('lit, 'script) ContractMockOptions \<Rightarrow> function_definition list \<Rightarrow> function_definition list" where
  "scripted options fs =
     filter (\<lambda>f. case fd_name f of
                   None \<Rightarrow> False
                 | Some name \<Rightarrow> name \<noteq> [] \<and> hasProperty (opt_scripted options) name) fs"

definition mocked ::
  "('lit, 'script) ContractMockOptions \<Rightarrow> function_definition list \<Rightarrow> function_definition list" where
  "mocked options fs =
     filter (\<lambda>f. case fd_name f of
                   None \<Rightarrow> False
                 | Some name \<Rightarrow> name \<noteq> [] \<and> \<not> hasProperty (opt_scripted options) name) fs"

text \<open>Line 88: the object handed to \<^verbatim>\<open>makeConstructor\<close>.\<close>

definition constructorArguments ::
  "('lit, 'script) ContractMockOptions \<Rightarrow> contract_definition list \<Rightarrow> (string \<rightharpoonup> 'lit list)" where
  "constructorArguments options parents =
     objectFilter (opt_constructors options) (\<lambda>key _. key \<in> set (constructors parents))"

text \<open>Line 94: \<^verbatim>\<open>options.scripted[func.name || '']\<close>.\<close>

definition scriptOf ::
  "('lit, 'script) ContractMockOptions \<Rightarrow> function_definition
   \<Rightarrow> 'script list property option" where
  "scriptOf options func =
     getProperty (opt_scripted options) (case fd_name func of None \<Rightarrow> [] | Some name \<Rightarrow> name)"

text \<open>
  Lines 74 to 99: the object \<^verbatim>\<open>mock\<close>. The elements of \<^verbatim>\<open>subNodes\<close> are evaluated
  from left to right, so the first helper that throws decides the error.
\<close>

definition mock ::
  "('lit, 'script) helpers \<Rightarrow> string \<Rightarrow> ('lit, 'script) ContractMockOptions
   \<Rightarrow> contract_definition \<Rightarrow> contract_definition list \<Rightarrow> error + contract_definition" where
  "mock H contractName options flat parents =
     (case makeConstructor H (constructorArguments options parents) of
        Inl msg \<Rightarrow> Inl (HelperError msg)
      | Inr ctor \<Rightarrow>
     (case flatMap (subNodes flat) (exposeNode H) of
        Inl msg \<Rightarrow> Inl (HelperError msg)
      | Inr exposed \<Rightarrow>
     (case mapE (\<lambda>func. scriptFunction H func (scriptOf options func))
             (scripted options (abstracts flat)) of
        Inl msg \<Rightarrow> Inl (HelperError msg)
      | Inr scripts \<Rightarrow>
     (case flatMap (mocked options (abstracts flat)) (stubFunction H) of
        Inl msg \<Rightarrow> Inl (HelperError msg)
      | Inr stubs \<Rightarrow>
          Inr \<lparr> kind = Contract,
                cd_name = mockContractName contractName,
                baseContracts = [\<lparr> baseName = userType H contractName \<rparr>],
                subNodes = ctor # exposed @ scripts @ stubs \<rparr>))))"

fun isPragma :: "source_node \<Rightarrow> bool" where
  "isPragma (PragmaDirective n v) = True"
| "isPragma (ImportDirective p a) = False"
| "isPragma (ContractDefinition c) = False"

text \<open>
  Lines 23 to 123. When \<^verbatim>\<open>sources[path]\<close> is an inherited property, its \<^verbatim>\<open>contracts\<close>
  is \<^verbatim>\<open>undefined\<close> and \<^verbatim>\<open>in\<close> at line 32 throws a \<open>TypeError\<close>, as reading
  \<^verbatim>\<open>contracts\<close> of \<^verbatim>\<open>undefined\<close> does.
\<close>

definition mockContract ::
  "('lit, 'script) helpers \<Rightarrow> SourceCollection \<Rightarrow> string \<Rightarrow> string
   \<Rightarrow> ('lit, 'script) ContractMockOptions \<Rightarrow> error + source_unit" where
  "mockContract H sources path contractName options =
     (case getProperty sources path of
        None \<Rightarrow> Inl TypeError
      | Some (Inherited builtin) \<Rightarrow> Inl TypeError
      | Some (Own sourceInfo) \<Rightarrow>
     (case getProperty (contracts sourceInfo) contractName of
        None \<Rightarrow> Inl (ContractNotFoundError contractName path)
      | Some c \<Rightarrow>
     (case runFlatten (resolve sourceInfo path) (flattenContract H c) of
        Inl e \<Rightarrow> Inl e
      | Inr (flat, parents) \<Rightarrow>
     (case checkConstructors (opt_constructors options) contractName (constructors parents) of
        Some e \<Rightarrow> Inl e
      | None \<Rightarrow>
     (case mock H contractName options flat parents of
        Inl e \<Rightarrow> Inl e
      | Inr m \<Rightarrow>
     (case nonAbstractForcer H (mockContractName contractName) of
        Inl msg \<Rightarrow> Inl (HelperError msg)
      | Inr forcer \<Rightarrow>
          Inr \<lparr> children =
                  filter isPragma (children (parsed sourceInfo))
                  @ [ImportDirective path None, ContractDefinition m, forcer] \<rparr>))))))"

section \<open>A small catalog to run the definitions on\<close>

text \<open>
  \<^verbatim>\<open>Token.sol\<close> declares \<open>Ownable\<close>, whose constructor takes one address, and
  \<open>Token is Ownable\<close> with an internal state variable and the abstract functions
  \<open>decimals\<close> and \<open>rate\<close>. \<^verbatim>\<open>Wallet.sol\<close> declares \<open>Wallet\<close>, whose only member is a fallback function
  without a body; the parser gives a fallback function the empty name. \<^verbatim>\<open>Quirk.sol\<close>
  declares a contract named \<open>toString\<close>, whose constructor takes one address, and
  \<open>Child is toString\<close>; \<^verbatim>\<open>Stray.sol\<close> declares \<open>Child\<close> alone.
\<close>

definition exAbstract :: "string \<Rightarrow> function_definition" where
  "exAbstract name =
     \<lparr> fd_name = Some name, isConstructor = False, parameters = [],
       returnParameters = [\<lparr> typeName = ''uint256'', paramName = [] \<rparr>],
       visibility = ''public'', stateMutability = None, body = None \<rparr>"

definition exFallback :: function_definition where
  "exFallback =
     \<lparr> fd_name = Some [], isConstructor = False, parameters = [], returnParameters = [],
       visibility = ''external'', stateMutability = Some ''payable'', body = None \<rparr>"

definition exConstructor :: "parameter list \<Rightarrow> function_definition" where
  "exConstructor ps =
     \<lparr> fd_name = None, isConstructor = True, parameters = ps, returnParameters = [],
       visibility = ''public'', stateMutability = None, body = Some (Block []) \<rparr>"

definition exOwnable :: contract_definition where
  "exOwnable =
     \<lparr> kind = Contract, cd_name = ''Ownable'', baseContracts = [],
       subNodes = [OtherMember StateVariableDeclaration ''owner'',
                   FunctionDefinition
                     (exConstructor [\<lparr> typeName = ''address'', paramName = ''_owner'' \<rparr>])] \<rparr>"

definition exToken :: contract_definition where
  "exToken =
     \<lparr> kind = Contract, cd_name = ''Token'',
       baseContracts = [\<lparr> baseName = UserDefinedTypeName ''Ownable'' \<rparr>],
       subNodes = [OtherMember StateVariableDeclaration ''supply'',
                   FunctionDefinition (exAbstract ''decimals''),
                   FunctionDefinition (exAbstract ''rate'')] \<rparr>"

definition exWallet :: contract_definition where
  "exWallet =
     \<lparr> kind = Contract, cd_name = ''Wallet'', baseContracts = [],
       subNodes = [FunctionDefinition exFallback] \<rparr>"

definition exParent :: contract_definition where
  "exParent =
     \<lparr> kind = Contract, cd_name = ''toString'', baseContracts = [],
       subNodes = [FunctionDefinition
                     (exConstructor [\<lparr> typeName = ''address'', paramName = ''a'' \<rparr>])] \<rparr>"

definition exChild :: contract_definition where
  "exChild =
     \<lparr> kind = Contract, cd_name = ''Child'',
       baseContracts = [\<lparr> baseName = UserDefinedTypeName ''toString'' \<rparr>],
       subNodes = [] \<rparr>"

definition exPragma :: source_node where
  "exPragma = PragmaDirective ''solidity'' ''^0.4.24''"

definition exTokenInfo :: source_info where
  "exTokenInfo =
     \<lparr> parsed = \<lparr> children = [exPragma, ContractDefinition exOwnable,
                              ContractDefinition exToken] \<rparr>,
       contracts = [''Ownable'' \<mapsto> exOwnable, ''Token'' \<mapsto> exToken],
       scope = [''Ownable'' \<mapsto> exOwnable, ''Token'' \<mapsto> exToken] \<rparr>"

definition exOrphanInfo :: source_info where
  "exOrphanInfo =
     \<lparr> parsed = \<lparr> children = [exPragma, ContractDefinition exToken] \<rparr>,
       contracts = [''Token'' \<mapsto> exToken],
       scope = [''Token'' \<mapsto> exToken] \<rparr>"

definition exWalletInfo :: source_info where
  "exWalletInfo =
     \<lparr> parsed = \<lparr> children = [exPragma, ContractDefinition exWallet] \<rparr>,
       contracts = [''Wallet'' \<mapsto> exWallet],
       scope = [''Wallet'' \<mapsto> exWallet] \<rparr>"

definition exQuirkInfo :: source_info where
  "exQuirkInfo =
     \<lparr> parsed = \<lparr> children = [exPragma, ContractDefinition exParent,
                              ContractDefinition exChild] \<rparr>,
       contracts = [''toString'' \<mapsto> exParent, ''Child'' \<mapsto> exChild],
       scope = [''toString'' \<mapsto> exParent, ''Child'' \<mapsto> exChild] \<rparr>"

definition exStrayInfo :: source_info where
  "exStrayInfo =
     \<lparr> parsed = \<lparr> children = [exPragma, ContractDefinition exChild] \<rparr>,
       contracts = [''Child'' \<mapsto> exChild],
       scope = [''Child'' \<mapsto> exChild] \<rparr>"

definition exSources :: SourceCollection where
  "exSources =
     [''Token.sol'' \<mapsto> exTokenInfo, ''Orphan.sol'' \<mapsto> exOrphanInfo,
      ''Wallet.sol'' \<mapsto> exWalletInfo, ''Quirk.sol'' \<mapsto> exQuirkInfo,
      ''Stray.sol'' \<mapsto> exStrayInfo]"

definition exOptions :: "(string, string) ContractMockOptions" where
  "exOptions =
     \<lparr> opt_constructors = [''Ownable'' \<mapsto> [''0x01''], ''Stranger'' \<mapsto> [''7'']],
       opt_scripted = [''rate'' \<mapsto> [''5'', ''7'']] \<rparr>"

definition exNoOptions :: "(string, string) ContractMockOptions" where
  "exNoOptions = \<lparr> opt_constructors = Map.empty, opt_scripted = Map.empty \<rparr>"

text \<open>
  Stand-ins for the helpers. The flattener follows the first base contract only, which
  is all the catalog above needs.
\<close>

fun exIsConstructor :: "contract_member \<Rightarrow> bool" where
  "exIsConstructor (FunctionDefinition f) = isConstructor f"
| "exIsConstructor (OtherMember k s) = False"

fun exTypeText :: "type_name \<Rightarrow> string" where
  "exTypeText (UserDefinedTypeName n) = n"
| "exTypeText (ElementaryTypeName n) = n"

fun exMerge :: "contract_definition \<Rightarrow> contract_definition property \<Rightarrow> flattening" where
  "exMerge c (Own p) =
     Flattened (c \<lparr> subNodes := filter (\<lambda>m. \<not> exIsConstructor m) (subNodes p) @ subNodes c \<rparr>)
       [p]"
| "exMerge c (Inherited builtin) = FlattenError ''not a contract definition''"

fun exFlatten :: "contract_definition property \<Rightarrow> flattening" where
  "exFlatten (Own c) =
     (case baseContracts c of
        [] \<Rightarrow> Flattened c []
      | b # _ \<Rightarrow> Resolve (exTypeText (baseName b)) (exMerge c))"
| "exFlatten (Inherited builtin) = FlattenError ''not a contract definition''"

text \<open>What \<open>exFlatten\<close> makes of \<open>Token\<close> once \<open>Ownable\<close> is resolved.\<close>

definition exFlat :: contract_definition where
  "exFlat =
     exToken \<lparr> subNodes := OtherMember StateVariableDeclaration ''owner'' # subNodes exToken \<rparr>"

fun exExpose :: "contract_member \<Rightarrow> string + contract_member list" where
  "exExpose (FunctionDefinition f) = Inr []"
| "exExpose (OtherMember k s) =
     Inr [FunctionDefinition
            ((exAbstract (s @ ''Get'')) \<lparr> body := Some (Block [''return '' @ s]) \<rparr>)]"

definition exHelpers :: "(string, string) helpers" where
  "exHelpers =
     \<lparr> flattenContract = exFlatten,
       makeConstructor =
         (\<lambda>args. Inr (FunctionDefinition
            ((exConstructor [])
               \<lparr> body := Some (Block (case args ''Ownable'' of
                                        None \<Rightarrow> []
                                      | Some ls \<Rightarrow> [''Ownable'' @ concat ls])) \<rparr>))),
       nonAbstractForcer =
         (\<lambda>n. Inr (ContractDefinition
            \<lparr> kind = Contract, cd_name = n @ ''NonAbstractForcer'', baseContracts = [],
              subNodes = [FunctionDefinition
                            ((exConstructor []) \<lparr> body := Some (Block [''new '' @ n]) \<rparr>)] \<rparr>)),
       exposeNode = exExpose,
       stubFunction = (\<lambda>f. Inr [FunctionDefinition (f \<lparr> body := Some (Block []) \<rparr>)]),
       scriptFunction =
         (\<lambda>f s. case s of
                  None \<Rightarrow> Inl ''no script''
                | Some (Inherited builtin) \<Rightarrow> Inl ''not a script''
                | Some (Own vs) \<Rightarrow> Inr (FunctionDefinition (f \<lparr> body := Some (Block vs) \<rparr>))),
       userType = UserDefinedTypeName \<rparr>"

text \<open>Helpers whose synthesis always throws: only the checks before it can be seen.\<close>

definition exFailing :: "(string, string) helpers" where
  "exFailing =
     exHelpers
       \<lparr> makeConstructor := (\<lambda>args. Inl ''makeConstructor''),
         nonAbstractForcer := (\<lambda>n. Inl ''nonAbstractForcer''),
         exposeNode := (\<lambda>m. Inl ''exposeNode''),
         stubFunction := (\<lambda>f. Inl ''stubFunction''),
         scriptFunction := (\<lambda>f s. Inl ''scriptFunction'') \<rparr>"

text \<open>The source units expected for \<open>Token\<close> (with \<open>exOptions\<close>) and for \<open>Wallet\<close>.\<close>

definition exMock :: contract_definition where
  "exMock =
     \<lparr> kind = Contract, cd_name = ''TokenMock'',
       baseContracts = [\<lparr> baseName = UserDefinedTypeName ''Token'' \<rparr>],
       subNodes =
         [FunctionDefinition ((exConstructor []) \<lparr> body := Some (Block [''Ownable0x01'']) \<rparr>),
          FunctionDefinition
            ((exAbstract ''ownerGet'') \<lparr> body := Some (Block [''return owner'']) \<rparr>),
          FunctionDefinition
            ((exAbstract ''supplyGet'') \<lparr> body := Some (Block [''return supply'']) \<rparr>),
          FunctionDefinition ((exAbstract ''rate'') \<lparr> body := Some (Block [''5'', ''7'']) \<rparr>),
          FunctionDefinition ((exAbstract ''decimals'') \<lparr> body := Some (Block []) \<rparr>)] \<rparr>"

definition exForcer :: "string \<Rightarrow> source_node" where
  "exForcer n =
     ContractDefinition
       \<lparr> kind = Contract, cd_name = n @ ''NonAbstractForcer'', baseContracts = [],
         subNodes = [FunctionDefinition
                       ((exConstructor []) \<lparr> body := Some (Block [''new '' @ n]) \<rparr>)] \<rparr>"

definition exUnit :: source_unit where
  "exUnit =
     \<lparr> children = [exPragma, ImportDirective ''Token.sol'' None, ContractDefinition exMock,
                    exForcer ''TokenMock''] \<rparr>"

definition exWalletUnit :: source_unit where
  "exWalletUnit =
     \<lparr> children =
         [exPragma, ImportDirective ''Wallet.sol'' None,
          ContractDefinition
            \<lparr> kind = Contract, cd_name = ''WalletMock'',
              baseContracts = [\<lparr> baseName = UserDefinedTypeName ''Wallet'' \<rparr>],
              subNodes = [FunctionDefinition ((exConstructor []) \<lparr> body := Some (Block []) \<rparr>)] \<rparr>,
          exForcer ''WalletMock''] \<rparr>"

text \<open>
  The source unit returned for \<open>Child\<close> of \<^verbatim>\<open>Quirk.sol\<close> without any constructor
  arguments.
\<close>

definition exChildUnit :: source_unit where
  "exChildUnit =
     \<lparr> children =
         [exPragma, ImportDirective ''Quirk.sol'' None,
          ContractDefinition
            \<lparr> kind = Contract, cd_name = ''ChildMock'',
              baseContracts = [\<lparr> baseName = UserDefinedTypeName ''Child'' \<rparr>],
              subNodes = [FunctionDefinition ((exConstructor []) \<lparr> body := Some (Block []) \<rparr>)] \<rparr>,
          exForcer ''ChildMock''] \<rparr>"

section \<open>Evaluating the small catalog\<close>

lemmas ex_defs =
  exSources_def exTokenInfo_def exOrphanInfo_def exWalletInfo_def exQuirkInfo_def
  exStrayInfo_def exFlat_def exOptions_def exNoOptions_def exHelpers_def exFailing_def
  exToken_def exOwnable_def exWallet_def exParent_def exChild_def exPragma_def
  exAbstract_def exFallback_def exConstructor_def exMock_def exForcer_def exUnit_def
  exWalletUnit_def exChildUnit_def

lemmas mock_defs =
  mockContract_def mock_def resolve_def constructors_def constructorArguments_def
  objectFilter_def abstracts_def scripted_def mocked_def scriptOf_def mockContractName_def
  getProperty_def hasProperty_def objectPrototype_def

lemma ex_flatten_Token:
  "runFlatten (resolve exTokenInfo ''Token.sol'') (flattenContract exHelpers (Own exToken))
     = Inr (exFlat, [exOwnable])"
  by (simp add: exHelpers_def exToken_def exTokenInfo_def resolve_def getProperty_def
        exFlat_def exOwnable_def exConstructor_def)

section \<open>Missing path and missing contract\<close>

text \<open>
  C10. When \<open>path\<close> is not a key of the catalog, \<^verbatim>\<open>sources[path]\<close> is \<^verbatim>\<open>undefined\<close> or
  an inherited property, and line 32 throws a \<open>TypeError\<close>: no source unit is returned
  and the error is none of the three errors of the taxonomy, whatever the helpers and the
  other arguments are.
\<close>

theorem mockContract_unknown_path:
  assumes "sources path = None"
  shows "mockContract H sources path contractName options = Inl TypeError
       \<and> (\<forall>u. mockContract H sources path contractName options \<noteq> Inr u)
       \<and> (\<forall>a b. mockContract H sources path contractName options \<noteq> Inl (ContractNotFoundError a b)
              \<and> mockContract H sources path contractName options \<noteq> Inl (ScopeResolutionError a b)
              \<and> mockContract H sources path contractName options
                   \<noteq> Inl (MissingConstructorArgsError a b))"
  using assms by (simp add: mockContract_def getProperty_def)

theorem mockContract_unknown_path_witness:
  "exSources ''Nope.sol'' = None
   \<and> mockContract exHelpers exSources ''Nope.sol'' ''Token'' exOptions = Inl TypeError"
proof -
  have h: "exSources ''Nope.sol'' = None"
    by (simp add: exSources_def)
  from mockContract_unknown_path
         [where sources = exSources and path = "''Nope.sol''" and H = exHelpers
            and contractName = "''Token''" and options = exOptions, OF h] h
  show ?thesis by simp
qed

text \<open>
  A contract name that is neither declared in the file nor inherited from
  \<^verbatim>\<open>Object.prototype\<close> is refused at line 33, whatever the helpers are.
\<close>

lemma mockContract_unknown_contract:
  assumes "sources path = Some sourceInfo"
    and "contracts sourceInfo contractName = None"
    and "contractName \<notin> set objectPrototype"
  shows "mockContract H sources path contractName options
           = Inl (ContractNotFoundError contractName path)"
  using assms by (simp add: mockContract_def getProperty_def)

lemma ex_unknown_contract:
  "mockContract exFailing exSources ''Wallet.sol'' ''Token'' exOptions
     = Inl (ContractNotFoundError ''Token'' ''Wallet.sol'')"
  by (rule mockContract_unknown_contract [where sourceInfo = exWalletInfo])
     (simp_all add: exSources_def exWalletInfo_def objectPrototype_def)

section \<open>A name the scope does not have\<close>

lemma runFlatten_asked:
  "name \<in> set (asked cb fl) \<Longrightarrow> cb name = Inl e \<Longrightarrow> runFlatten cb fl = Inl e"
proof (induction fl)
  case (Flattened flat parents)
  then show ?case by simp
next
  case (Resolve n k)
  show ?case
  proof (cases "cb n")
    case (Inl e')
    with Resolve.prems show ?thesis by auto
  next
    case (Inr c)
    with Resolve.prems have "name = n \<or> name \<in> set (asked cb (k c))" by auto
    then show ?thesis
    proof
      assume "name = n"
      with Inr Resolve.prems show ?thesis by simp
    next
      assume "name \<in> set (asked cb (k c))"
      with Resolve.IH [of "k c"] Resolve.prems(2) Inr show ?thesis by simp
    qed
  qed
next
  case (FlattenError msg)
  then show ?case by simp
qed

text \<open>
  A base name that is neither in the scope of the file nor inherited from
  \<^verbatim>\<open>Object.prototype\<close> makes the callback throw at line 38, and the call fails with
  that error, for every flattener and whatever the other helpers are.
\<close>

lemma mockContract_not_in_scope:
  assumes "sources path = Some sourceInfo"
    and "getProperty (contracts sourceInfo) contractName = Some c"
    and "name \<in> set (asked (resolve sourceInfo path) (flattenContract H c))"
    and "scope sourceInfo name = None"
    and "name \<notin> set objectPrototype"
  shows "mockContract H sources path contractName options
           = Inl (ScopeResolutionError name path)"
proof -
  have "resolve sourceInfo path name = Inl (ScopeResolutionError name path)"
    using assms(4,5) by (simp add: resolve_def getProperty_def)
  with assms(3)
  have "runFlatten (resolve sourceInfo path) (flattenContract H c)
          = Inl (ScopeResolutionError name path)"
    by (rule runFlatten_asked)
  with assms(1,2) show ?thesis by (simp add: mockContract_def getProperty_def)
qed

lemma ex_not_in_scope:
  "mockContract exFailing exSources ''Orphan.sol'' ''Token'' exOptions
     = Inl (ScopeResolutionError ''Ownable'' ''Orphan.sol'')"
  by (rule mockContract_not_in_scope [where sourceInfo = exOrphanInfo and c = "Own exToken"])
     (simp_all add: exSources_def exOrphanInfo_def exFailing_def exHelpers_def exToken_def
        getProperty_def objectPrototype_def)

section \<open>What a call that returns went through\<close>

lemma flatMap_Inr:
  "flatMap xs f = Inr zs \<Longrightarrow> \<exists>yss. map f xs = map Inr yss \<and> zs = concat yss"
proof (induction xs arbitrary: zs)
  case Nil
  then show ?case by simp
next
  case (Cons x xs)
  from Cons.prems obtain ys ws where fx: "f x = Inr ys" and rest: "flatMap xs f = Inr ws"
    and zs: "zs = ys @ ws"
    by (auto split: sum.splits)
  from Cons.IH [OF rest] obtain yss where "map f xs = map Inr yss" and "ws = concat yss"
    by blast
  with fx zs have "map f (x # xs) = map Inr (ys # yss) \<and> zs = concat (ys # yss)"
    by simp
  then show ?case by blast
qed

lemma mapE_Inr: "mapE f xs = Inr ys \<Longrightarrow> map f xs = map Inr ys"
  by (induction xs arbitrary: ys) (auto split: sum.splits)

lemma checkConstructors_None:
  "checkConstructors cs cn names = None \<longleftrightarrow> (\<forall>n \<in> set names. hasProperty cs n)"
  by (induction names) auto

lemma checkConstructors_Some:
  "checkConstructors cs cn names = Some e \<Longrightarrow>
     \<exists>n \<in> set names. \<not> hasProperty cs n \<and> e = MissingConstructorArgsError n cn"
  by (induction names) (auto split: if_splits)

lemma checkConstructors_first:
  "checkConstructors cs cn names =
     map_option (\<lambda>n. MissingConstructorArgsError n cn)
       (find (\<lambda>n. \<not> hasProperty cs n) names)"
  by (induction names) auto

lemma constructors_iff:
  "name \<in> set (constructors parents) \<longleftrightarrow>
     (\<exists>p \<in> set parents. cd_name p = name \<and> list_ex needsArguments (subNodes p))"
  by (auto simp: constructors_def)

lemma mock_Inl: "mock H contractName options flat parents = Inl e \<Longrightarrow> \<exists>msg. e = HelperError msg"
  by (auto simp: mock_def split: sum.splits)

lemma mock_Inr:
  assumes "mock H contractName options flat parents = Inr m"
  shows "\<exists>ctor exposed scripts stubs.
           makeConstructor H (constructorArguments options parents) = Inr ctor
         \<and> map (exposeNode H) (subNodes flat) = map Inr exposed
         \<and> map (\<lambda>func. scriptFunction H func (scriptOf options func))
               (scripted options (abstracts flat)) = map Inr scripts
         \<and> map (stubFunction H) (mocked options (abstracts flat)) = map Inr stubs
         \<and> m = \<lparr> kind = Contract, cd_name = mockContractName contractName,
                  baseContracts = [\<lparr> baseName = userType H contractName \<rparr>],
                  subNodes = ctor # concat exposed @ scripts @ concat stubs \<rparr>"
proof -
  from assms obtain ctor ex scripts st where
    c: "makeConstructor H (constructorArguments options parents) = Inr ctor"
    and e: "flatMap (subNodes flat) (exposeNode H) = Inr ex"
    and s: "mapE (\<lambda>func. scriptFunction H func (scriptOf options func))
              (scripted options (abstracts flat)) = Inr scripts"
    and t: "flatMap (mocked options (abstracts flat)) (stubFunction H) = Inr st"
    and m: "m = \<lparr> kind = Contract, cd_name = mockContractName contractName,
                  baseContracts = [\<lparr> baseName = userType H contractName \<rparr>],
                  subNodes = ctor # ex @ scripts @ st \<rparr>"
    by (auto simp: mock_def split: sum.splits)
  from flatMap_Inr [OF e] obtain exposed where
    e': "map (exposeNode H) (subNodes flat) = map Inr exposed" "ex = concat exposed"
    by blast
  from flatMap_Inr [OF t] obtain stubs where
    t': "map (stubFunction H) (mocked options (abstracts flat)) = map Inr stubs"
      "st = concat stubs"
    by blast
  from c e' mapE_Inr [OF s] t' m show ?thesis by blast
qed

lemma mockContract_Inr:
  assumes "mockContract H sources path contractName options = Inr u"
  shows "\<exists>sourceInfo c flat parents m forcer.
           sources path = Some sourceInfo
         \<and> getProperty (contracts sourceInfo) contractName = Some c
         \<and> runFlatten (resolve sourceInfo path) (flattenContract H c) = Inr (flat, parents)
         \<and> checkConstructors (opt_constructors options) contractName (constructors parents) = None
         \<and> mock H contractName options flat parents = Inr m
         \<and> nonAbstractForcer H (mockContractName contractName) = Inr forcer
         \<and> children u = filter isPragma (children (parsed sourceInfo))
                          @ [ImportDirective path None, ContractDefinition m, forcer]"
proof -
  from assms obtain sourceInfo where s: "getProperty sources path = Some (Own sourceInfo)"
    by (auto simp: mockContract_def split: option.splits property.splits)
  then have s': "sources path = Some sourceInfo"
    by (auto simp: getProperty_def split: option.splits if_splits)
  from assms s obtain c where c: "getProperty (contracts sourceInfo) contractName = Some c"
    by (auto simp: mockContract_def split: option.splits)
  from assms s c show ?thesis
    unfolding s'
    by (auto simp: mockContract_def split: option.splits sum.splits prod.splits)
qed

lemma mockContract_success:
  assumes "mockContract H sources path contractName options = Inr u"
  shows "\<exists>sourceInfo c flat parents ctor exposed scripts stubs m forcer.
           sources path = Some sourceInfo
         \<and> getProperty (contracts sourceInfo) contractName = Some c
         \<and> runFlatten (resolve sourceInfo path) (flattenContract H c) = Inr (flat, parents)
         \<and> nonAbstractForcer H (mockContractName contractName) = Inr forcer
         \<and> children u = filter isPragma (children (parsed sourceInfo))
                          @ [ImportDirective path None, ContractDefinition m, forcer]
         \<and> makeConstructor H (constructorArguments options parents) = Inr ctor
         \<and> map (exposeNode H) (subNodes flat) = map Inr exposed
         \<and> map (\<lambda>func. scriptFunction H func (scriptOf options func))
               (scripted options (abstracts flat)) = map Inr scripts
         \<and> map (stubFunction H) (mocked options (abstracts flat)) = map Inr stubs
         \<and> m = \<lparr> kind = Contract, cd_name = mockContractName contractName,
                  baseContracts = [\<lparr> baseName = userType H contractName \<rparr>],
                  subNodes = ctor # concat exposed @ scripts @ concat stubs \<rparr>"
proof -
  from mockContract_Inr [OF assms] obtain sourceInfo c flat parents m forcer where
    a: "sources path = Some sourceInfo" "getProperty (contracts sourceInfo) contractName = Some c"
      "runFlatten (resolve sourceInfo path) (flattenContract H c) = Inr (flat, parents)"
      "nonAbstractForcer H (mockContractName contractName) = Inr forcer"
      "children u = filter isPragma (children (parsed sourceInfo))
                          @ [ImportDirective path None, ContractDefinition m, forcer]"
    and m: "mock H contractName options flat parents = Inr m"
    by blast
  from mock_Inr [OF m] obtain ctor exposed scripts stubs where
    b: "makeConstructor H (constructorArguments options parents) = Inr ctor"
       "map (exposeNode H) (subNodes flat) = map Inr exposed"
       "map (\<lambda>func. scriptFunction H func (scriptOf options func))
               (scripted options (abstracts flat)) = map Inr scripts"
       "map (stubFunction H) (mocked options (abstracts flat)) = map Inr stubs"
       "m = \<lparr> kind = Contract, cd_name = mockContractName contractName,
                  baseContracts = [\<lparr> baseName = userType H contractName \<rparr>],
                  subNodes = ctor # concat exposed @ scripts @ concat stubs \<rparr>"
    by blast
  show ?thesis
    apply (rule exI [of _ sourceInfo], rule exI [of _ c], rule exI [of _ flat])
    apply (rule exI [of _ parents], rule exI [of _ ctor], rule exI [of _ exposed])
    apply (rule exI [of _ scripts], rule exI [of _ stubs], rule exI [of _ m])
    apply (rule exI [of _ forcer])
    using a b apply (intro conjI)
              apply assumption+
    done
qed

lemma constructorArguments_eq:
  "constructorArguments options parents key =
     (if \<exists>p \<in> set parents. cd_name p = key \<and> list_ex needsArguments (subNodes p)
      then opt_constructors options key else None)"
  by (simp add: constructorArguments_def objectFilter_def constructors_iff split: option.splits)


lemma ex_Token_unit:
  "mockContract exHelpers exSources ''Token.sol'' ''Token'' exOptions = Inr exUnit"
  by (simp add: mock_defs ex_defs)

lemma ex_Wallet_unit:
  "mockContract exHelpers exSources ''Wallet.sol'' ''Wallet'' exOptions = Inr exWalletUnit"
  by (simp add: mock_defs ex_defs)

section \<open>Constructors that need arguments\<close>

text \<open>
  Once the hierarchy is flattened, the first parent that needs arguments and for which
  \<^verbatim>\<open>name in options.constructors\<close> is false is named in the error of line 59, also with
  helpers whose synthesis would throw: the check comes first.
\<close>

lemma missing_constructor_arguments:
  assumes "sources path = Some sourceInfo"
    and "getProperty (contracts sourceInfo) contractName = Some c"
    and "runFlatten (resolve sourceInfo path) (flattenContract H c) = Inr (flat, parents)"
    and "find (\<lambda>n. \<not> hasProperty (opt_constructors options) n) (constructors parents)
           = Some name"
  shows "mockContract H sources path contractName options
           = Inl (MissingConstructorArgsError name contractName)"
  using assms by (simp add: mockContract_def getProperty_def checkConstructors_first)

lemma ex_missing_constructor_arguments:
  "mockContract exFailing exSources ''Token.sol'' ''Token'' exNoOptions
     = Inl (MissingConstructorArgsError ''Ownable'' ''Token'')"
  by (simp add: mock_defs ex_defs)

section \<open>Names inherited from \<^verbatim>\<open>Object.prototype\<close>\<close>

text \<open>
  Past the test of line 32 an error is the callback's, for a name that the lookup in the
  scope does not find, or the one of line 59, or a helper's.
\<close>

lemma runFlatten_resolve_error:
  "runFlatten (resolve sourceInfo path) fl = Inl e \<Longrightarrow>
     (\<exists>name. e = ScopeResolutionError name path \<and> getProperty (scope sourceInfo) name = None)
     \<or> (\<exists>msg. e = HelperError msg)"
proof (induction fl)
  case (Flattened flat parents)
  then show ?case by simp
next
  case (Resolve n k)
  show ?case
  proof (cases "getProperty (scope sourceInfo) n")
    case None
    then have "resolve sourceInfo path n = Inl (ScopeResolutionError n path)"
      by (simp add: resolve_def)
    with Resolve.prems have "e = ScopeResolutionError n path"
      by simp
    with None show ?thesis by blast
  next
    case (Some c)
    then have "resolve sourceInfo path n = Inr c"
      by (simp add: resolve_def)
    with Resolve.prems have "runFlatten (resolve sourceInfo path) (k c) = Inl e"
      by simp
    with Resolve.IH [of "k c"] show ?thesis by simp
  qed
next
  case (FlattenError msg)
  then show ?case by auto
qed

lemma mockContract_found_error:
  assumes "sources path = Some sourceInfo"
    and "getProperty (contracts sourceInfo) contractName = Some c"
    and "mockContract H sources path contractName options = Inl e"
  shows "(\<exists>name. e = ScopeResolutionError name path \<and> getProperty (scope sourceInfo) name = None)
       \<or> (\<exists>name. e = MissingConstructorArgsError name contractName)
       \<or> (\<exists>msg. e = HelperError msg)"
proof (cases "runFlatten (resolve sourceInfo path) (flattenContract H c)")
  case (Inl e')
  with assms have "e' = e" by (simp add: mockContract_def getProperty_def)
  with runFlatten_resolve_error [OF Inl] show ?thesis by blast
next
  case (Inr r)
  obtain flat parents where r: "r = (flat, parents)" by (cases r)
  show ?thesis
  proof (cases "checkConstructors (opt_constructors options) contractName (constructors parents)")
    case (Some e')
    with assms Inr r have "e' = e" by (simp add: mockContract_def getProperty_def)
    with checkConstructors_Some [OF Some] show ?thesis by blast
  next
    case None
    show ?thesis
    proof (cases "mock H contractName options flat parents")
      case (Inl e')
      with assms \<open>runFlatten (resolve sourceInfo path) (flattenContract H c) = Inr r\<close> r None
      have "e' = e" by (simp add: mockContract_def getProperty_def)
      with mock_Inl [OF Inl] show ?thesis by blast
    next
      case m: (Inr m)
      with assms Inr r None show ?thesis
        by (cases "nonAbstractForcer H (mockContractName contractName)")
           (auto simp: mockContract_def getProperty_def)
    qed
  qed
qed

text \<open>
  C3. \<^verbatim>\<open>Wallet.sol\<close> declares no contract named \<open>toString\<close>, yet
  \<^verbatim>\<open>'toString' in sourceInfo.contracts\<close> is true: line 33 does not throw and the
  flattener is handed the built-in function. With the stand-in flattener the call ends
  in the flattener's own error; with no choice of helpers does it end in the error of
  line 33.
\<close>

theorem inherited_contract_name_passes:
  "contracts exWalletInfo ''toString'' = None
   \<and> hasProperty (contracts exWalletInfo) ''toString''
   \<and> getProperty (contracts exWalletInfo) ''toString'' = Some (Inherited ''toString'')
   \<and> mockContract exHelpers exSources ''Wallet.sol'' ''toString'' exOptions
       = Inl (HelperError ''not a contract definition'')
   \<and> mockContract H exSources ''Wallet.sol'' ''toString'' exOptions
       \<noteq> Inl (ContractNotFoundError ''toString'' ''Wallet.sol'')"
proof -
  have s: "exSources ''Wallet.sol'' = Some exWalletInfo"
    by (simp add: exSources_def)
  have n: "contracts exWalletInfo ''toString'' = None"
    by (simp add: exWalletInfo_def)
  have g: "getProperty (contracts exWalletInfo) ''toString'' = Some (Inherited ''toString'')"
    by (simp add: getProperty_def n objectPrototype_def)
  then have h: "hasProperty (contracts exWalletInfo) ''toString''"
    by (simp add: hasProperty_def)
  have r: "mockContract exHelpers exSources ''Wallet.sol'' ''toString'' exOptions
       = Inl (HelperError ''not a contract definition'')"
    by (simp add: mockContract_def getProperty_def s g [unfolded getProperty_def] exHelpers_def)
  have "mockContract H exSources ''Wallet.sol'' ''toString'' exOptions
       \<noteq> Inl (ContractNotFoundError ''toString'' ''Wallet.sol'')"
  proof
    assume "mockContract H exSources ''Wallet.sol'' ''toString'' exOptions
       = Inl (ContractNotFoundError ''toString'' ''Wallet.sol'')"
    from mockContract_found_error [OF s g this] show False by simp
  qed
  with n h g r show ?thesis by simp
qed

text \<open>
  C4. In \<^verbatim>\<open>Stray.sol\<close> the contract \<open>Child\<close> names the base \<open>toString\<close>, which the scope
  does not have. The flattener asks the callback for it, and the callback does not throw:
  it answers with the built-in function. With the stand-in flattener the call ends in the
  flattener's own error; with no choice of helpers does it end in the error of line 38
  for that name.
\<close>

theorem inherited_base_name_resolves:
  "scope exStrayInfo ''toString'' = None
   \<and> ''toString'' \<in> set (asked (resolve exStrayInfo ''Stray.sol'')
                              (flattenContract exHelpers (Own exChild)))
   \<and> resolve exStrayInfo ''Stray.sol'' ''toString'' = Inr (Inherited ''toString'')
   \<and> mockContract exHelpers exSources ''Stray.sol'' ''Child'' exOptions
       = Inl (HelperError ''not a contract definition'')
   \<and> mockContract H exSources ''Stray.sol'' ''Child'' exOptions
       \<noteq> Inl (ScopeResolutionError ''toString'' ''Stray.sol'')"
proof -
  have s: "exSources ''Stray.sol'' = Some exStrayInfo"
    by (simp add: exSources_def)
  have n: "scope exStrayInfo ''toString'' = None"
    by (simp add: exStrayInfo_def)
  have c: "getProperty (contracts exStrayInfo) ''Child'' = Some (Own exChild)"
    by (simp add: getProperty_def exStrayInfo_def)
  have g: "getProperty (scope exStrayInfo) ''toString'' = Some (Inherited ''toString'')"
    by (simp add: getProperty_def n objectPrototype_def)
  then have v: "resolve exStrayInfo ''Stray.sol'' ''toString'' = Inr (Inherited ''toString'')"
    by (simp add: resolve_def)
  have a: "''toString'' \<in> set (asked (resolve exStrayInfo ''Stray.sol'')
                              (flattenContract exHelpers (Own exChild)))"
    by (simp add: exHelpers_def exChild_def)
  have f: "runFlatten (resolve exStrayInfo ''Stray.sol'') (flattenContract exHelpers (Own exChild))
             = Inl (HelperError ''not a contract definition'')"
    by (simp add: exHelpers_def exChild_def v)
  have r: "mockContract exHelpers exSources ''Stray.sol'' ''Child'' exOptions
       = Inl (HelperError ''not a contract definition'')"
    using s c f by (simp add: mockContract_def getProperty_def)
  have "mockContract H exSources ''Stray.sol'' ''Child'' exOptions
       \<noteq> Inl (ScopeResolutionError ''toString'' ''Stray.sol'')"
  proof
    assume "mockContract H exSources ''Stray.sol'' ''Child'' exOptions
       = Inl (ScopeResolutionError ''toString'' ''Stray.sol'')"
    from mockContract_found_error [OF s c this] g show False by simp
  qed
  with n a v r show ?thesis by simp
qed

text \<open>
  C2. In \<^verbatim>\<open>Quirk.sol\<close> the parent of \<open>Child\<close> is named \<open>toString\<close> and its constructor
  takes one parameter. The options have no constructor arguments at all, yet
  \<^verbatim>\<open>'toString' in options.constructors\<close> is true: line 59 does not throw and a source
  unit is returned, whose constructor forwards nothing.
\<close>

theorem inherited_parent_name_passes:
  "runFlatten (resolve exQuirkInfo ''Quirk.sol'') (flattenContract exHelpers (Own exChild))
     = Inr (exChild, [exParent])
   \<and> cd_name exParent = ''toString''
   \<and> list_ex needsArguments (subNodes exParent)
   \<and> opt_constructors exNoOptions ''toString'' = None
   \<and> hasProperty (opt_constructors exNoOptions) ''toString''
   \<and> mockContract exHelpers exSources ''Quirk.sol'' ''Child'' exNoOptions = Inr exChildUnit"
proof -
  have f: "runFlatten (resolve exQuirkInfo ''Quirk.sol'') (flattenContract exHelpers (Own exChild))
     = Inr (exChild, [exParent])"
    by (simp add: exHelpers_def exChild_def exParent_def exQuirkInfo_def resolve_def
          getProperty_def exConstructor_def)
  have p: "cd_name exParent = ''toString''" "list_ex needsArguments (subNodes exParent)"
    by (simp_all add: exParent_def exConstructor_def)
  have o: "opt_constructors exNoOptions ''toString'' = None"
    "hasProperty (opt_constructors exNoOptions) ''toString''"
    by (simp_all add: exNoOptions_def hasProperty_def getProperty_def objectPrototype_def)
  have r: "mockContract exHelpers exSources ''Quirk.sol'' ''Child'' exNoOptions = Inr exChildUnit"
    by (simp add: mock_defs ex_defs)
  from f p o r show ?thesis by simp
qed

section \<open>The layout of the mock contract\<close>

text \<open>
  C5. In every call that returns, the members of the mock contract are, in this order:
  the constructor that \<^verbatim>\<open>makeConstructor\<close> returned, the members that \<^verbatim>\<open>exposeNode\<close>
  returned for the members of the flattened contract taken in their order, the members
  that \<^verbatim>\<open>scriptFunction\<close> returned for the scripted functions in the order of the
  classification, and the members that \<^verbatim>\<open>stubFunction\<close> returned for the remaining
  classified functions in that order.
\<close>

theorem mock_subNodes_layout:
  assumes "mockContract H sources path contractName options = Inr u"
  shows "\<exists>sourceInfo c flat parents ctor exposed scripts stubs m forcer.
           sources path = Some sourceInfo
         \<and> getProperty (contracts sourceInfo) contractName = Some c
         \<and> runFlatten (resolve sourceInfo path) (flattenContract H c) = Inr (flat, parents)
         \<and> children u = filter isPragma (children (parsed sourceInfo))
                          @ [ImportDirective path None, ContractDefinition m, forcer]
         \<and> makeConstructor H (constructorArguments options parents) = Inr ctor
         \<and> map (exposeNode H) (subNodes flat) = map Inr exposed
         \<and> map (\<lambda>func. scriptFunction H func (scriptOf options func))
               (scripted options (abstracts flat)) = map Inr scripts
         \<and> map (stubFunction H) (mocked options (abstracts flat)) = map Inr stubs
         \<and> subNodes m = ctor # concat exposed @ scripts @ concat stubs"
proof -
  from mockContract_success [OF assms]
  obtain sourceInfo c flat parents ctor exposed scripts stubs m forcer where
    a: "sources path = Some sourceInfo" "getProperty (contracts sourceInfo) contractName = Some c"
      "runFlatten (resolve sourceInfo path) (flattenContract H c) = Inr (flat, parents)"
      "children u = filter isPragma (children (parsed sourceInfo))
                          @ [ImportDirective path None, ContractDefinition m, forcer]"
      "makeConstructor H (constructorArguments options parents) = Inr ctor"
      "map (exposeNode H) (subNodes flat) = map Inr exposed"
      "map (\<lambda>func. scriptFunction H func (scriptOf options func))
               (scripted options (abstracts flat)) = map Inr scripts"
      "map (stubFunction H) (mocked options (abstracts flat)) = map Inr stubs"
    and m: "m = \<lparr> kind = Contract, cd_name = mockContractName contractName,
                  baseContracts = [\<lparr> baseName = userType H contractName \<rparr>],
                  subNodes = ctor # concat exposed @ scripts @ concat stubs \<rparr>"
    by blast
  from m have "subNodes m = ctor # concat exposed @ scripts @ concat stubs"
    by simp
  with a show ?thesis by blast
qed

theorem mock_subNodes_layout_witness:
  "mockContract exHelpers exSources ''Token.sol'' ''Token'' exOptions = Inr exUnit
   \<and> (\<exists>sourceInfo c flat parents ctor exposed scripts stubs m forcer.
           exSources ''Token.sol'' = Some sourceInfo
         \<and> getProperty (contracts sourceInfo) ''Token'' = Some c
         \<and> runFlatten (resolve sourceInfo ''Token.sol'') (flattenContract exHelpers c)
             = Inr (flat, parents)
         \<and> children exUnit = filter isPragma (children (parsed sourceInfo))
                          @ [ImportDirective ''Token.sol'' None, ContractDefinition m, forcer]
         \<and> makeConstructor exHelpers (constructorArguments exOptions parents) = Inr ctor
         \<and> map (exposeNode exHelpers) (subNodes flat) = map Inr exposed
         \<and> map (\<lambda>func. scriptFunction exHelpers func (scriptOf exOptions func))
               (scripted exOptions (abstracts flat)) = map Inr scripts
         \<and> map (stubFunction exHelpers) (mocked exOptions (abstracts flat)) = map Inr stubs
         \<and> subNodes m = ctor # concat exposed @ scripts @ concat stubs)"
proof -
  have h: "mockContract exHelpers exSources ''Token.sol'' ''Token'' exOptions = Inr exUnit"
    by (rule ex_Token_unit)
  from h mock_subNodes_layout [OF h] show ?thesis by (rule conjI)
qed

text \<open>
  C6. In every call that returns, the mock contract is named by the requested name
  followed by \<open>Mock\<close>, and its list of base contracts has exactly one entry, whose base
  name is \<^verbatim>\<open>utils.userType\<close> of the requested name; no parent is listed.
\<close>

theorem mock_name_and_base:
  assumes "mockContract H sources path contractName options = Inr u"
  shows "\<exists>sourceInfo m forcer.
           sources path = Some sourceInfo
         \<and> children u = filter isPragma (children (parsed sourceInfo))
                          @ [ImportDirective path None, ContractDefinition m, forcer]
         \<and> cd_name m = contractName @ ''Mock''
         \<and> baseContracts m = [\<lparr> baseName = userType H contractName \<rparr>]
         \<and> length (baseContracts m) = 1"
proof -
  from mockContract_success [OF assms]
  obtain sourceInfo ctor exposed scripts stubs m forcer where
    a: "sources path = Some sourceInfo"
      "children u = filter isPragma (children (parsed sourceInfo))
                          @ [ImportDirective path None, ContractDefinition m, forcer]"
    and m: "m = \<lparr> kind = Contract, cd_name = mockContractName contractName,
                  baseContracts = [\<lparr> baseName = userType H contractName \<rparr>],
                  subNodes = ctor # concat exposed @ scripts @ concat stubs \<rparr>"
    by blast
  from m have "cd_name m = contractName @ ''Mock''"
    and "baseContracts m = [\<lparr> baseName = userType H contractName \<rparr>]"
    and "length (baseContracts m) = 1"
    by (simp_all add: mockContractName_def)
  with a show ?thesis by blast
qed

theorem mock_name_and_base_witness:
  "mockContract exHelpers exSources ''Token.sol'' ''Token'' exOptions = Inr exUnit
   \<and> (\<exists>sourceInfo m forcer.
           exSources ''Token.sol'' = Some sourceInfo
         \<and> children exUnit = filter isPragma (children (parsed sourceInfo))
                          @ [ImportDirective ''Token.sol'' None, ContractDefinition m, forcer]
         \<and> cd_name m = ''Token'' @ ''Mock''
         \<and> baseContracts m = [\<lparr> baseName = userType exHelpers ''Token'' \<rparr>]
         \<and> length (baseContracts m) = 1)"
proof -
  have h: "mockContract exHelpers exSources ''Token.sol'' ''Token'' exOptions = Inr exUnit"
    by (rule ex_Token_unit)
  from h mock_name_and_base [OF h] show ?thesis by (rule conjI)
qed

section \<open>The layout of the source unit\<close>

text \<open>
  C7. In every call that returns, the children of the source unit are the pragma
  directives of the parsed file in their order, then one import directive of \<open>path\<close>
  without aliases, then the mock contract, then what \<^verbatim>\<open>nonAbstractForcer\<close> returned for
  the name of the mock; there is no other child.
\<close>

theorem source_unit_children:
  assumes "mockContract H sources path contractName options = Inr u"
  shows "\<exists>sourceInfo m forcer.
           sources path = Some sourceInfo
         \<and> cd_name m = mockContractName contractName
         \<and> nonAbstractForcer H (mockContractName contractName) = Inr forcer
         \<and> children u = filter isPragma (children (parsed sourceInfo))
                          @ [ImportDirective path None, ContractDefinition m, forcer]"
proof -
  from mockContract_success [OF assms]
  obtain sourceInfo ctor exposed scripts stubs m forcer where
    a: "sources path = Some sourceInfo"
      "nonAbstractForcer H (mockContractName contractName) = Inr forcer"
      "children u = filter isPragma (children (parsed sourceInfo))
                          @ [ImportDirective path None, ContractDefinition m, forcer]"
    and m: "m = \<lparr> kind = Contract, cd_name = mockContractName contractName,
                  baseContracts = [\<lparr> baseName = userType H contractName \<rparr>],
                  subNodes = ctor # concat exposed @ scripts @ concat stubs \<rparr>"
    by blast
  from m have "cd_name m = mockContractName contractName"
    by simp
  with a show ?thesis by blast
qed

theorem source_unit_children_witness:
  "mockContract exHelpers exSources ''Token.sol'' ''Token'' exOptions = Inr exUnit
   \<and> (\<exists>sourceInfo m forcer.
           exSources ''Token.sol'' = Some sourceInfo
         \<and> cd_name m = mockContractName ''Token''
         \<and> nonAbstractForcer exHelpers (mockContractName ''Token'') = Inr forcer
         \<and> children exUnit = filter isPragma (children (parsed sourceInfo))
                          @ [ImportDirective ''Token.sol'' None, ContractDefinition m, forcer])"
proof -
  have h: "mockContract exHelpers exSources ''Token.sol'' ''Token'' exOptions = Inr exUnit"
    by (rule ex_Token_unit)
  from h source_unit_children [OF h] show ?thesis by (rule conjI)
qed

section \<open>The arguments handed to the constructor forwarder\<close>

text \<open>
  C8. In every call that returns, the first member of the mock is what \<^verbatim>\<open>makeConstructor\<close>
  returned for a mapping that agrees with \<open>options.constructors\<close> on every key that names
  a parent with a constructor of at least one parameter and has no other key: entries for
  parents whose constructors take no parameter and entries for names outside the parents
  are gone.
\<close>

theorem constructor_arguments_filtered:
  assumes "mockContract H sources path contractName options = Inr u"
  shows "\<exists>sourceInfo c flat parents ctor rest m forcer.
           sources path = Some sourceInfo
         \<and> getProperty (contracts sourceInfo) contractName = Some c
         \<and> runFlatten (resolve sourceInfo path) (flattenContract H c) = Inr (flat, parents)
         \<and> children u = filter isPragma (children (parsed sourceInfo))
                          @ [ImportDirective path None, ContractDefinition m, forcer]
         \<and> subNodes m = ctor # rest
         \<and> makeConstructor H (constructorArguments options parents) = Inr ctor
         \<and> (\<forall>key. constructorArguments options parents key =
                (if \<exists>p \<in> set parents. cd_name p = key \<and> list_ex needsArguments (subNodes p)
                 then opt_constructors options key else None))"
proof -
  from mockContract_success [OF assms]
  obtain sourceInfo c flat parents ctor exposed scripts stubs m forcer where
    a: "sources path = Some sourceInfo" "getProperty (contracts sourceInfo) contractName = Some c"
      "runFlatten (resolve sourceInfo path) (flattenContract H c) = Inr (flat, parents)"
      "children u = filter isPragma (children (parsed sourceInfo))
                          @ [ImportDirective path None, ContractDefinition m, forcer]"
      "makeConstructor H (constructorArguments options parents) = Inr ctor"
    and m: "m = \<lparr> kind = Contract, cd_name = mockContractName contractName,
                  baseContracts = [\<lparr> baseName = userType H contractName \<rparr>],
                  subNodes = ctor # concat exposed @ scripts @ concat stubs \<rparr>"
    by blast
  from m have s: "subNodes m = ctor # (concat exposed @ scripts @ concat stubs)"
    by simp
  have f: "\<forall>key. constructorArguments options parents key =
                (if \<exists>p \<in> set parents. cd_name p = key \<and> list_ex needsArguments (subNodes p)
                 then opt_constructors options key else None)"
    by (rule allI) (rule constructorArguments_eq)
  from a s f show ?thesis by blast
qed

theorem constructor_arguments_filtered_witness:
  "mockContract exHelpers exSources ''Token.sol'' ''Token'' exOptions = Inr exUnit
   \<and> (\<exists>sourceInfo c flat parents ctor rest m forcer.
           exSources ''Token.sol'' = Some sourceInfo
         \<and> getProperty (contracts sourceInfo) ''Token'' = Some c
         \<and> runFlatten (resolve sourceInfo ''Token.sol'') (flattenContract exHelpers c)
             = Inr (flat, parents)
         \<and> children exUnit = filter isPragma (children (parsed sourceInfo))
                          @ [ImportDirective ''Token.sol'' None, ContractDefinition m, forcer]
         \<and> subNodes m = ctor # rest
         \<and> makeConstructor exHelpers (constructorArguments exOptions parents) = Inr ctor
         \<and> (\<forall>key. constructorArguments exOptions parents key =
                (if \<exists>p \<in> set parents. cd_name p = key \<and> list_ex needsArguments (subNodes p)
                 then opt_constructors exOptions key else None)))
   \<and> constructorArguments exOptions [exOwnable] ''Ownable'' = Some [''0x01'']
   \<and> constructorArguments exOptions [exOwnable] ''Stranger'' = None"
proof -
  have h: "mockContract exHelpers exSources ''Token.sol'' ''Token'' exOptions = Inr exUnit"
    by (rule ex_Token_unit)
  have k: "constructorArguments exOptions [exOwnable] ''Ownable'' = Some [''0x01'']"
    "constructorArguments exOptions [exOwnable] ''Stranger'' = None"
    by (simp_all add: constructorArguments_def objectFilter_def constructors_def exOptions_def
          exOwnable_def exConstructor_def)
  from h constructor_arguments_filtered [OF h] k show ?thesis by blast
qed

section \<open>The classification of the abstract functions\<close>

lemma scriptOf_scripted:
  "f \<in> set (scripted options fs) \<Longrightarrow> \<exists>script. scriptOf options f = Some script"
  by (auto simp: scripted_def scriptOf_def hasProperty_def split: option.splits)

lemma unnamed_unclassified:
  assumes "fd_name f = None \<or> fd_name f = Some []"
  shows "f \<notin> set (scripted options fs) \<and> f \<notin> set (mocked options fs)"
  using assms by (auto simp: scripted_def mocked_def)

lemma named_classified:
  assumes "f \<in> set fs" and "fd_name f = Some name" and "name \<noteq> []"
  shows "(f \<in> set (scripted options fs) \<longleftrightarrow> hasProperty (opt_scripted options) name)
       \<and> (f \<in> set (mocked options fs) \<longleftrightarrow> \<not> hasProperty (opt_scripted options) name)"
  using assms by (auto simp: scripted_def mocked_def)

text \<open>
  C1. \<open>Wallet\<close> has one abstract function, the fallback function, whose name is empty. It
  is among the abstract functions, yet neither among the scripted nor among the mocked
  ones, and the mock contract returned for \<open>Wallet\<close> has the constructor as its only
  member: the function gets no stub, although line 96 announces a stub for "all remaining
  abstract functions".
\<close>

theorem unnamed_abstract_left_out:
  "exFallback \<in> set (abstracts exWallet)
   \<and> exFallback \<notin> set (scripted exOptions (abstracts exWallet))
   \<and> exFallback \<notin> set (mocked exOptions (abstracts exWallet))
   \<and> runFlatten (resolve exWalletInfo ''Wallet.sol'') (flattenContract exHelpers (Own exWallet))
       = Inr (exWallet, [])
   \<and> mockContract exHelpers exSources ''Wallet.sol'' ''Wallet'' exOptions = Inr exWalletUnit"
proof -
  have a: "abstracts exWallet = [exFallback]"
    by (simp add: abstracts_def exWallet_def exFallback_def)
  have n: "fd_name exFallback = Some []"
    by (simp add: exFallback_def)
  have s: "scripted exOptions [exFallback] = []" "mocked exOptions [exFallback] = []"
    by (simp_all add: scripted_def mocked_def n)
  have r: "runFlatten (resolve exWalletInfo ''Wallet.sol'') (flattenContract exHelpers (Own exWallet))
       = Inr (exWallet, [])"
    by (simp add: exHelpers_def exWallet_def)
  from a s r ex_Wallet_unit show ?thesis by simp
qed

end
